theory Spec2Isabelle
  imports Main
begin

section \<open>Data model\<close>

text \<open>
  The profile hook (\<^verbatim>\<open>src/hook/useProfile.tsx\<close>) and the favorites screen
  (\<^verbatim>\<open>src/unnamed/part_000\<close>) are sequences of awaited calls to remote collaborators
  (auth service, record store, object store, device media picker) interleaved with
  updates of React state. The embedding makes both explicit:
  \<^item> the React state of a component is a record that every operation takes and returns;
  \<^item> a thrown JavaScript error is the \<open>Inl\<close> branch of the operation's result;
  \<^item> the answer of every awaited call is an input of the operation (the collaborators
    are external), and every call the operation issues is appended to a log, in the
    order of the source, so that "no write happened" and "delete before upload" are
    statements about that log.
\<close>

text \<open>
  JavaScript errors: \<open>Error msg\<close> is \<^verbatim>\<open>new Error(msg)\<close> raised by the source itself,
  \<open>TypeError\<close> is the runtime error of reading a property of \<^verbatim>\<open>null\<close> or spreading
  \<^verbatim>\<open>null\<close>, and \<open>RemoteError\<close> is an error object handed back by a collaborator.
\<close>

datatype err = Error string | TypeError string | RemoteError string

text \<open>
  The answer of an awaited collaborator call: the promise resolves to an object with a
  nullable \<^verbatim>\<open>data\<close> and a nullable \<^verbatim>\<open>error\<close>, or it rejects.
\<close>

datatype 'a reply = Resolved "'a option" "err option" | Rejected err

type_synonym blob = string

text \<open>
  Modelled from the spec: the types \<^verbatim>\<open>Title\<close> and \<^verbatim>\<open>Profile\<close> are imported from
  \<^verbatim>\<open>@/types/title\<close> and \<^verbatim>\<open>@/types/profile\<close>, which are not among the sources. The
  fields are those of the spec's data model and of the column list that
  \<^verbatim>\<open>getProfile\<close> selects. \<^verbatim>\<open>titles\<close> is nullable because the source guards it
  (\<^verbatim>\<open>profileData.titles || []\<close>, \<^verbatim>\<open>profile?.titles?.includes\<close>).
\<close>

record Title =
  title :: string
  points_required :: int

record Profile =
  profile_id :: string
  first_name :: string
  last_name :: string
  avatar_url :: "string option"
  preferred_transport :: "string option"
  points :: int
  titles :: "string list option"
  selected_title :: "string option"
  favorites :: "string list"
  updated_at :: string

datatype User = User (user_id: string)

datatype Session = Session (user: "User option")

text \<open>The \<^verbatim>\<open>useState\<close> cells of \<^verbatim>\<open>useProfile\<close>; the cell \<^verbatim>\<open>titles\<close> is \<open>titles_list\<close>
  here, since \<open>titles\<close> is the profile's field.\<close>

record hook =
  loading :: bool
  uploading :: bool
  session :: "Session option"
  profile :: "Profile option"
  titles_list :: "Title list"

datatype update = SetTitles "string list" | SetSelectedTitle string | SetFavorites "string list"

datatype upload_options = ContentType string | CacheControlUpsert string bool

text \<open>The calls an operation issues, with their arguments.\<close>

datatype call =
    AuthSignOut
  | AuthGetSession
  | SelectFrom string string "string option"
  | SelectILike string string
  | UpdateProfiles update string
  | UpsertProfiles string string string
  | StorageList string
  | StorageRemove "string list"
  | StorageUpload string blob upload_options
  | StorageGetPublicUrl string
  | Fetch string
  | RequestMediaLibraryPermissions
  | LaunchImageLibrary
  | Alert string
  | ConsoleError string err

type_synonym 'a outcome = "(err + 'a) \<times> call list \<times> hook"

definition result_of :: "'r \<times> call list \<times> 's \<Rightarrow> 'r" where
  "result_of r = fst r"

definition calls_of :: "'r \<times> call list \<times> 's \<Rightarrow> call list" where
  "calls_of r = fst (snd r)"

definition state_of :: "'r \<times> call list \<times> 's \<Rightarrow> 's" where
  "state_of r = snd (snd r)"

text \<open>\<^verbatim>\<open>session?.user\<close>\<close>

definition session_user :: "hook \<Rightarrow> User option" where
  "session_user s = (case session s of None \<Rightarrow> None | Some se \<Rightarrow> user se)"

text \<open>A call that writes to the record store or to the object store.\<close>

fun is_write :: "call \<Rightarrow> bool" where
  "is_write (UpdateProfiles _ _) = True"
| "is_write (UpsertProfiles _ _ _) = True"
| "is_write (StorageRemove _) = True"
| "is_write (StorageUpload _ _ _) = True"
| "is_write _ = False"

section \<open>Loading the profile\<close>

definition profile_columns :: string where
  "profile_columns = ''id, first_name, last_name, avatar_url, preferred_transport, points, titles, selected_title, favorites, updated_at''"

text \<open>
  \<^verbatim>\<open>getProfile\<close>, lines 43-67. The body of the \<^verbatim>\<open>try\<close> block first; the operation wraps
  it between \<^verbatim>\<open>setLoading(true)\<close> and the \<^verbatim>\<open>finally\<close> block. \<open>status\<close> is the HTTP
  status of the answer: an error with status 406 is not thrown.
\<close>

definition getProfile_try :: "Profile reply \<Rightarrow> nat \<Rightarrow> hook \<Rightarrow> unit outcome" where
  "getProfile_try rp status s =
     (case session_user s of
        None \<Rightarrow> (Inl (Error ''No user on the session!''), [], s)
      | Some u \<Rightarrow>
          (let cs = [SelectFrom ''profiles'' profile_columns (Some (user_id u))] in
           case rp of
             Rejected e \<Rightarrow> (Inl e, cs, s)
           | Resolved data error \<Rightarrow>
               (let stored = (case data of
                                None \<Rightarrow> (Inr (), cs, s)
                              | Some d \<Rightarrow> (Inr (), cs, s\<lparr>profile := Some d\<rparr>)) in
                case error of
                  None \<Rightarrow> stored
                | Some e \<Rightarrow> if status \<noteq> 406 then (Inl e, cs, s) else stored)))"

definition getProfile :: "Profile reply \<Rightarrow> nat \<Rightarrow> hook \<Rightarrow> unit outcome" where
  "getProfile rp status s =
     (case getProfile_try rp status (s\<lparr>loading := True\<rparr>) of
        (r, cs, s') \<Rightarrow> (r, cs, s'\<lparr>loading := False\<rparr>))"

section \<open>The title unlock evaluator\<close>

text \<open>
  Lines 92-96: the titles of the table whose threshold the points reach and that the
  profile does not hold yet, in table order. \<^verbatim>\<open>profileData.titles.includes\<close> is only
  evaluated for a title whose threshold is reached (\<^verbatim>\<open>&&\<close> short-circuits); on a null
  \<^verbatim>\<open>titles\<close> it raises a TypeError.
\<close>

definition newlyUnlockedTitles :: "Title list \<Rightarrow> int \<Rightarrow> string list option \<Rightarrow> err + string list" where
  "newlyUnlockedTitles data pts ts =
     (case ts of
        Some unlocked \<Rightarrow>
          Inr (map title (filter (\<lambda>t. points_required t \<le> pts \<and> title t \<notin> set unlocked) data))
      | None \<Rightarrow>
          if filter (\<lambda>t. points_required t \<le> pts) data = [] then Inr []
          else Inl (TypeError ''Cannot read properties of null (reading includes)''))"

text \<open>The answers \<^verbatim>\<open>fetchTitles\<close> awaits: the title table, the profile's
  \<^verbatim>\<open>points, titles\<close>, the update of \<^verbatim>\<open>titles\<close>, and the answer to the
  \<^verbatim>\<open>getProfile()\<close> it starts.\<close>

record titles_env =
  titles_reply :: "Title list reply"
  profileData_reply :: "(int \<times> string list option) reply"
  titles_update_reply :: "unit reply"
  refresh_reply :: "Profile reply"
  refresh_status :: nat

text \<open>
  \<^verbatim>\<open>fetchTitles\<close>, lines 70-114. The error of the second query and the error of the
  update are never read (lines 85 and 101 destructure no \<^verbatim>\<open>error\<close>). \<^verbatim>\<open>getProfile()\<close>
  on line 106 is started and not awaited: its state updates are applied, its own
  failure reaches nobody. Its writes (\<open>loading\<close>, \<open>profile\<close>) and the later
  \<^verbatim>\<open>setTitles\<close> touch different cells, so the order between them does not matter.
\<close>

definition fetchTitles :: "titles_env \<Rightarrow> hook \<Rightarrow> unit outcome" where
  "fetchTitles env s =
     (case session_user s of
        None \<Rightarrow> (Inl (Error ''No user session found''), [], s)
      | Some u \<Rightarrow>
          (let userId = user_id u;
               c1 = SelectFrom ''titles'' ''*'' None in
           case titles_reply env of
             Rejected e \<Rightarrow> (Inl e, [c1], s)
           | Resolved data error \<Rightarrow>
               (case error of
                  Some e \<Rightarrow> (Inl e, [c1], s)
                | None \<Rightarrow>
                    (let c2 = SelectFrom ''profiles'' ''points, titles'' (Some userId);
                         shown = (case data of None \<Rightarrow> [] | Some d \<Rightarrow> d) in
                     case profileData_reply env of
                       Rejected e \<Rightarrow> (Inl e, [c1, c2], s)
                     | Resolved None _ \<Rightarrow> (Inr (), [c1, c2], s\<lparr>titles_list := shown\<rparr>)
                     | Resolved (Some (pts, ts)) _ \<Rightarrow>
                         (case data of
                            None \<Rightarrow> (Inl (TypeError ''Cannot read properties of null (reading filter)''), [c1, c2], s)
                          | Some d \<Rightarrow>
                              (case newlyUnlockedTitles d pts ts of
                                 Inl e \<Rightarrow> (Inl e, [c1, c2], s)
                               | Inr new \<Rightarrow>
                                   if length new > 0 then
                                     (let updatedTitles = (case ts of None \<Rightarrow> [] | Some old \<Rightarrow> old) @ new;
                                          c3 = UpdateProfiles (SetTitles updatedTitles) userId in
                                      case titles_update_reply env of
                                        Rejected e \<Rightarrow> (Inl e, [c1, c2, c3], s)
                                      | Resolved _ _ \<Rightarrow>
                                          (case getProfile (refresh_reply env) (refresh_status env) s of
                                             (_, cs, s') \<Rightarrow>
                                               (Inr (), [c1, c2, c3] @ cs, s'\<lparr>titles_list := shown\<rparr>)))
                                   else (Inr (), [c1, c2], s\<lparr>titles_list := shown\<rparr>)))))))"

section \<open>Avatar replacement\<close>

text \<open>String operations of JavaScript that the avatar code uses: \<^verbatim>\<open>startsWith\<close>,
  \<^verbatim>\<open>split\<close> on a one-character separator (never an empty array), \<^verbatim>\<open>pop\<close>
  (\<^verbatim>\<open>undefined\<close> on an empty array) and a template literal's rendering of a value
  that may be \<^verbatim>\<open>undefined\<close>.\<close>

definition startsWith :: "string \<Rightarrow> string \<Rightarrow> bool" where
  "startsWith str p \<longleftrightarrow> take (length p) str = p"

fun split :: "char \<Rightarrow> string \<Rightarrow> string list" where
  "split c [] = [[]]"
| "split c (x # xs) =
     (if x = c then [] # split c xs
      else (case split c xs of
              [] \<Rightarrow> [[x]]
            | w # ws \<Rightarrow> (x # w) # ws))"

definition pop :: "'a list \<Rightarrow> 'a option" where
  "pop xs = (if xs = [] then None else Some (last xs))"

definition template :: "string option \<Rightarrow> string" where
  "template v = (case v of None \<Rightarrow> ''undefined'' | Some str \<Rightarrow> str)"

text \<open>\<^verbatim>\<open>v || 'jpg'\<close> and \<^verbatim>\<open>v || 'image/jpeg'\<close>: \<^verbatim>\<open>undefined\<close> and the empty string are falsy.\<close>

definition or_default :: "string option \<Rightarrow> string \<Rightarrow> string" where
  "or_default v d = (case v of None \<Rightarrow> d | Some str \<Rightarrow> if str = [] then d else str)"

record asset =
  uri :: string
  mimeType :: "string option"

text \<open>The answer of \<^verbatim>\<open>fetch\<close>: a response with its \<^verbatim>\<open>ok\<close> flag, its status text and
  its body, or a rejection.\<close>

datatype fetch_reply = FetchResponse bool string blob | FetchRejected err

text \<open>
  The answers the two avatar operations await. The device picker's two calls are taken
  to resolve: \<open>permission_status\<close> is the \<^verbatim>\<open>status\<close> of the permission request,
  \<open>canceled\<close> and \<open>assets\<close> are the picker's result. \<open>timestamp\<close> and \<open>now\<close> are the two
  readings of the clock (lines 275 and 127).
\<close>

record avatar_env =
  permission_status :: string
  canceled :: bool
  assets :: "asset list option"
  list_reply :: "string list reply"
  remove_reply :: "unit reply"
  fetch_reply :: fetch_reply
  upload_reply :: "unit reply"
  publicUrlData :: "string option"
  upsert_reply :: "unit reply"
  timestamp :: string
  now :: string

text \<open>\<^verbatim>\<open>handleAvatarUpload\<close>, lines 117-144.\<close>

definition handleAvatarUpload_try :: "unit reply \<Rightarrow> string \<Rightarrow> string \<Rightarrow> hook \<Rightarrow> unit outcome" where
  "handleAvatarUpload_try rp clock publicUrl s =
     (case session_user s of
        None \<Rightarrow> (Inl (Error ''No user session found''), [], s)
      | Some u \<Rightarrow>
          (let cs = [UpsertProfiles (user_id u) publicUrl clock] in
           case rp of
             Rejected e \<Rightarrow> (Inl e, cs, s)
           | Resolved _ (Some updateError) \<Rightarrow> (Inl updateError, cs, s)
           | Resolved _ None \<Rightarrow>
               (Inr (), cs,
                s\<lparr>profile := (case profile s of
                                None \<Rightarrow> None
                              | Some prev \<Rightarrow> Some (prev\<lparr>avatar_url := Some publicUrl\<rparr>))\<rparr>)))"

definition handleAvatarUpload :: "unit reply \<Rightarrow> string \<Rightarrow> string \<Rightarrow> hook \<Rightarrow> unit outcome" where
  "handleAvatarUpload rp clock publicUrl s =
     (case handleAvatarUpload_try rp clock publicUrl (s\<lparr>loading := True\<rparr>) of
        (r, cs, s') \<Rightarrow> (r, cs, s'\<lparr>loading := False\<rparr>))"

text \<open>
  \<^verbatim>\<open>handleImagePicker\<close>, lines 199-225: reading the picked file, writing the object,
  resolving its public address and storing the address on the profile. \<open>cs\<close> are the
  calls issued before.
\<close>

definition handleImagePicker_write :: "avatar_env \<Rightarrow> asset \<Rightarrow> string \<Rightarrow> call list \<Rightarrow> hook \<Rightarrow> unit outcome" where
  "handleImagePicker_write env file filePath cs s =
     (let c5 = Fetch (uri file) in
      case fetch_reply env of
        FetchRejected e \<Rightarrow> (Inl e, cs @ [c5], s)
      | FetchResponse ok statusText body \<Rightarrow>
          if \<not> ok then (Inl (Error ''Failed to fetch image''), cs @ [c5], s)
          else
            (let c6 = StorageUpload filePath body (ContentType (or_default (mimeType file) ''image/jpeg'')) in
             case upload_reply env of
               Rejected e \<Rightarrow> (Inl e, cs @ [c5, c6], s)
             | Resolved _ (Some uploadError) \<Rightarrow> (Inl uploadError, cs @ [c5, c6], s)
             | Resolved _ None \<Rightarrow>
                 (let c7 = StorageGetPublicUrl filePath in
                  case publicUrlData env of
                    None \<Rightarrow>
                      (Inl (Error ''Failed to get public URL for the uploaded image.''), cs @ [c5, c6, c7], s)
                  | Some publicUrl \<Rightarrow>
                      (case handleAvatarUpload (upsert_reply env) (now env) publicUrl s of
                         (r, cs', s') \<Rightarrow> (r, cs @ [c5, c6, c7] @ cs', s')))))"

text \<open>\<^verbatim>\<open>handleImagePicker\<close>, lines 151-197, continued by \<open>handleImagePicker_write\<close>.\<close>

definition handleImagePicker_try :: "avatar_env \<Rightarrow> hook \<Rightarrow> unit outcome" where
  "handleImagePicker_try env s =
     (let c1 = RequestMediaLibraryPermissions; c2 = LaunchImageLibrary in
      if permission_status env \<noteq> ''granted'' then (Inr (), [c1], s)
      else if canceled env then (Inr (), [c1, c2], s)
      else
        (case assets env of
           None \<Rightarrow> (Inl (Error ''No image selected.''), [c1, c2], s)
         | Some [] \<Rightarrow> (Inl (Error ''No image selected.''), [c1, c2], s)
         | Some (file # _) \<Rightarrow>
             (case session_user s of
                None \<Rightarrow> (Inl (Error ''No user session found''), [c1, c2], s)
              | Some u \<Rightarrow>
                  (let userId = user_id u;
                       fileExt = pop (split (CHR ''.'') (uri file));
                       fileName = userId @ ''.'' @ template fileExt;
                       filePath = fileName;
                       c3 = StorageList userId in
                   case list_reply env of
                     Rejected e \<Rightarrow> (Inl e, [c1, c2, c3], s)
                   | Resolved _ (Some listError) \<Rightarrow> (Inl listError, [c1, c2, c3], s)
                   | Resolved existingFiles None \<Rightarrow>
                       if (case existingFiles of None \<Rightarrow> False | Some fs \<Rightarrow> length fs > 0) then
                         (let c4 = StorageRemove [filePath] in
                          case remove_reply env of
                            Rejected e \<Rightarrow> (Inl e, [c1, c2, c3, c4], s)
                          | Resolved _ (Some deleteError) \<Rightarrow> (Inl deleteError, [c1, c2, c3, c4], s)
                          | Resolved _ None \<Rightarrow>
                              handleImagePicker_write env file filePath [c1, c2, c3, c4] s)
                       else handleImagePicker_write env file filePath [c1, c2, c3] s))))"

definition handleImagePicker :: "avatar_env \<Rightarrow> hook \<Rightarrow> unit outcome" where
  "handleImagePicker env s =
     (case handleImagePicker_try env (s\<lparr>uploading := True\<rparr>) of
        (r, cs, s') \<Rightarrow> (r, cs, s'\<lparr>uploading := False\<rparr>))"

text \<open>\<^verbatim>\<open>uploadAvatar\<close> takes a string or a \<^verbatim>\<open>File\<close> (its name and its content).\<close>

datatype avatar_source = Uri string | File string blob

text \<open>\<^verbatim>\<open>uploadAvatar\<close>, lines 275-301: the object is written under a key with the
  clock's reading in it.\<close>

definition uploadAvatar_store :: "avatar_env \<Rightarrow> string \<Rightarrow> string \<Rightarrow> blob \<Rightarrow> call list \<Rightarrow> hook \<Rightarrow> unit outcome" where
  "uploadAvatar_store env userId fileExt body cs s =
     (let fileName = userId @ ''_'' @ timestamp env @ ''.'' @ fileExt;
          filePath = ''avatars/'' @ fileName;
          c1 = StorageUpload filePath body (CacheControlUpsert ''3600'' True) in
      case upload_reply env of
        Rejected e \<Rightarrow> (Inl e, cs @ [c1], s)
      | Resolved _ (Some uploadError) \<Rightarrow> (Inl uploadError, cs @ [c1], s)
      | Resolved _ None \<Rightarrow>
          (let c2 = StorageGetPublicUrl filePath in
           case publicUrlData env of
             None \<Rightarrow> (Inl (Error ''Failed to get public URL for the uploaded image.''), cs @ [c1, c2], s)
           | Some publicUrl \<Rightarrow>
               (case handleAvatarUpload (upsert_reply env) (now env) publicUrl s of
                  (r, cs', s') \<Rightarrow> (r, cs @ [c1, c2] @ cs', s'))))"

text \<open>\<^verbatim>\<open>uploadAvatar\<close>, lines 255-273. \<^verbatim>\<open>!userId\<close> holds for a missing user and for an
  empty id.\<close>

definition uploadAvatar_try :: "avatar_env \<Rightarrow> avatar_source \<Rightarrow> hook \<Rightarrow> unit outcome" where
  "uploadAvatar_try env src s =
     (let userId = (case session_user s of None \<Rightarrow> [] | Some u \<Rightarrow> user_id u) in
      if userId = [] then (Inl (Error ''User not authenticated''), [], s)
      else
        (case src of
           Uri str \<Rightarrow>
             if \<not> startsWith str ''http'' \<and> \<not> startsWith str ''data:'' then
               (Inl (Error ''Invalid image URI''), [], s)
             else
               (case fetch_reply env of
                  FetchRejected e \<Rightarrow> (Inl e, [Fetch str], s)
                | FetchResponse ok statusText body \<Rightarrow>
                    if \<not> ok then (Inl (Error (''Failed to fetch image: '' @ statusText)), [Fetch str], s)
                    else uploadAvatar_store env userId
                           (or_default (pop (split (CHR ''.'') str)) ''jpg'') body [Fetch str] s)
         | File fname body \<Rightarrow>
             uploadAvatar_store env userId (or_default (pop (split (CHR ''.'') fname)) ''jpg'') body [] s))"

definition uploadAvatar :: "avatar_env \<Rightarrow> avatar_source \<Rightarrow> hook \<Rightarrow> unit outcome" where
  "uploadAvatar env src s =
     (case uploadAvatar_try env src (s\<lparr>uploading := True\<rparr>) of
        (r, cs, s') \<Rightarrow> (r, cs, s'\<lparr>uploading := False\<rparr>))"

section \<open>Sign-out and title selection\<close>

text \<open>\<^verbatim>\<open>handleSignOut\<close>, lines 234-248.\<close>

definition handleSignOut_try :: "unit reply \<Rightarrow> hook \<Rightarrow> unit outcome" where
  "handleSignOut_try rp s =
     (let cs = [AuthSignOut] in
      case rp of
        Rejected e \<Rightarrow> (Inl e, cs, s)
      | Resolved _ (Some error) \<Rightarrow> (Inl error, cs, s)
      | Resolved _ None \<Rightarrow> (Inr (), cs, s\<lparr>session := None, profile := None\<rparr>))"

definition handleSignOut :: "unit reply \<Rightarrow> hook \<Rightarrow> unit outcome" where
  "handleSignOut rp s =
     (case handleSignOut_try rp (s\<lparr>loading := True\<rparr>) of
        (r, cs, s') \<Rightarrow> (r, cs, s'\<lparr>loading := False\<rparr>))"

text \<open>\<^verbatim>\<open>profile?.titles?.includes(title)\<close>: false without a snapshot and without a
  title list.\<close>

definition profile_includes :: "hook \<Rightarrow> string \<Rightarrow> bool" where
  "profile_includes s t =
     (case profile s of
        None \<Rightarrow> False
      | Some p \<Rightarrow> (case titles p of None \<Rightarrow> False | Some ts \<Rightarrow> t \<in> set ts))"

text \<open>\<^verbatim>\<open>handleSelectTitle\<close>, lines 310-335.\<close>

definition handleSelectTitle_try :: "unit reply \<Rightarrow> string \<Rightarrow> hook \<Rightarrow> unit outcome" where
  "handleSelectTitle_try rp t s =
     (case session_user s of
        None \<Rightarrow> (Inl (Error ''No user session found''), [], s)
      | Some u \<Rightarrow>
          if \<not> profile_includes s t then (Inl (Error ''You have not unlocked this title yet.''), [], s)
          else
            (let cs = [UpdateProfiles (SetSelectedTitle t) (user_id u)] in
             case rp of
               Rejected e \<Rightarrow> (Inl e, cs, s)
             | Resolved _ (Some updateError) \<Rightarrow> (Inl updateError, cs, s)
             | Resolved _ None \<Rightarrow>
                 (Inr (), cs,
                  s\<lparr>profile := (case profile s of
                                  None \<Rightarrow> None
                                | Some prev \<Rightarrow> Some (prev\<lparr>selected_title := Some t\<rparr>))\<rparr>)))"

definition handleSelectTitle :: "unit reply \<Rightarrow> string \<Rightarrow> hook \<Rightarrow> unit outcome" where
  "handleSelectTitle rp t s =
     (case handleSelectTitle_try rp t (s\<lparr>loading := True\<rparr>) of
        (r, cs, s') \<Rightarrow> (r, cs, s'\<lparr>loading := False\<rparr>))"

section \<open>The favorites screen\<close>







section \<open>Notions the properties are stated with\<close>

text \<open>The failure a collaborator's answer carries: a rejection, or a resolved answer
  with its \<^verbatim>\<open>error\<close> set.\<close>

fun failure :: "'a reply \<Rightarrow> err option" where
  "failure (Rejected e) = Some e"
| "failure (Resolved _ error) = error"


text \<open>Calls by the collaborator's operation they invoke.\<close>

datatype kind =
  SignOut | GetSession | Select | Update | Upsert | List | Remove | Upload | PublicUrl
  | FetchFile | Device | Console

fun kind_of :: "call \<Rightarrow> kind" where
  "kind_of AuthSignOut = SignOut"
| "kind_of AuthGetSession = GetSession"
| "kind_of (SelectFrom _ _ _) = Select"
| "kind_of (SelectILike _ _) = Select"
| "kind_of (UpdateProfiles _ _) = Update"
| "kind_of (UpsertProfiles _ _ _) = Upsert"
| "kind_of (StorageList _) = List"
| "kind_of (StorageRemove _) = Remove"
| "kind_of (StorageUpload _ _ _) = Upload"
| "kind_of (StorageGetPublicUrl _) = PublicUrl"
| "kind_of (Fetch _) = FetchFile"
| "kind_of RequestMediaLibraryPermissions = Device"
| "kind_of LaunchImageLibrary = Device"
| "kind_of (Alert _) = Device"
| "kind_of (ConsoleError _ _) = Console"


text \<open>The two calls that change the object store.\<close>

definition is_storage_write :: "call \<Rightarrow> bool" where
  "is_storage_write c \<longleftrightarrow> kind_of c = Remove \<or> kind_of c = Upload"

text \<open>The invariant of the data model: a selected title is one of the profile's
  titles. \<open>snapshot_ok\<close> is the invariant on the hook's snapshot, \<open>loaded_ok\<close> on a row
  the record store hands back.\<close>

definition selected_ok :: "Profile \<Rightarrow> bool" where
  "selected_ok p =
     (case selected_title p of
        None \<Rightarrow> True
      | Some t \<Rightarrow> (case titles p of None \<Rightarrow> False | Some ts \<Rightarrow> t \<in> set ts))"

definition snapshot_ok :: "hook \<Rightarrow> bool" where
  "snapshot_ok s = (case profile s of None \<Rightarrow> True | Some p \<Rightarrow> selected_ok p)"

definition loaded_ok :: "Profile reply \<Rightarrow> bool" where
  "loaded_ok rp = (case rp of Resolved (Some p) _ \<Rightarrow> selected_ok p | _ \<Rightarrow> True)"



section \<open>Concrete inputs\<close>

definition alice :: User where
  "alice = User ''u1''"

definition alice_profile :: Profile where
  "alice_profile =
     \<lparr>profile_id = ''u1'', first_name = ''Alice'', last_name = ''Adams'', avatar_url = None,
      preferred_transport = None, points = 50, titles = Some [''Rookie''],
      selected_title = Some ''Rookie'', favorites = [], updated_at = ''2024-01-01T00:00:00.000Z''\<rparr>"

definition signed_in :: hook where
  "signed_in =
     \<lparr>loading = False, uploading = False, session = Some (Session (Some alice)),
      profile = Some alice_profile, titles_list = []\<rparr>"

definition scenario_table :: "Title list" where
  "scenario_table =
     [\<lparr>title = ''Rookie'', points_required = 0\<rparr>,
      \<lparr>title = ''Pro'', points_required = 50\<rparr>,
      \<lparr>title = ''Elite'', points_required = 100\<rparr>]"

text \<open>The answers of the scenario of the specification: 50 points, \<open>Rookie\<close> unlocked.\<close>

definition scenario_env :: titles_env where
  "scenario_env =
     \<lparr>titles_reply = Resolved (Some scenario_table) None,
      profileData_reply = Resolved (Some (50, Some [''Rookie''])) None,
      titles_update_reply = Resolved None None,
      refresh_reply = Resolved (Some (alice_profile\<lparr>titles := Some [''Rookie'', ''Pro'']\<rparr>)) None,
      refresh_status = 200\<rparr>"

text \<open>The answers of the run that follows it: the same points, the extended titles.\<close>

definition scenario_env_again :: titles_env where
  "scenario_env_again =
     scenario_env\<lparr>profileData_reply := Resolved (Some (50, Some [''Rookie'', ''Pro''])) None\<rparr>"

text \<open>The scenario again, for a profile row whose \<^verbatim>\<open>titles\<close> is \<^verbatim>\<open>null\<close>, and for one whose
  \<^verbatim>\<open>titles\<close> is the empty list.\<close>

definition null_titles_env :: titles_env where
  "null_titles_env = scenario_env\<lparr>profileData_reply := Resolved (Some (50, None)) None\<rparr>"

definition empty_titles_env :: titles_env where
  "empty_titles_env = scenario_env\<lparr>profileData_reply := Resolved (Some (50, Some [])) None\<rparr>"

definition ok_reply :: "unit reply" where
  "ok_reply = Resolved None None"

definition failed_reply :: "unit reply" where
  "failed_reply = Resolved None (Some (RemoteError ''service unavailable''))"

definition failed_reply_profile :: "Profile reply" where
  "failed_reply_profile = Resolved None (Some (RemoteError ''service unavailable''))"

definition picked :: asset where
  "picked = \<lparr>uri = ''file:///photos/me.png'', mimeType = Some ''image/png''\<rparr>"

text \<open>A run of the picker in which every step succeeds and one earlier object is
  listed.\<close>

definition picker_env :: avatar_env where
  "picker_env =
     \<lparr>permission_status = ''granted'', canceled = False, assets = Some [picked],
      list_reply = Resolved (Some [''me.png'']) None, remove_reply = ok_reply,
      fetch_reply = FetchResponse True ''OK'' ''bytes'', upload_reply = ok_reply,
      publicUrlData = Some ''https://cdn.example/u1.png'', upsert_reply = ok_reply,
      timestamp = ''2024-01-02T00:00:00.000Z'', now = ''2024-01-02T00:00:01.000Z''\<rparr>"

text \<open>A run of the picker for a user whose stored avatar is \<open>u1.png\<close> and who picks a
  \<open>.jpg\<close> file; every step succeeds.\<close>

definition picked_jpg :: asset where
  "picked_jpg = \<lparr>uri = ''file:///photos/me.jpg'', mimeType = Some ''image/jpeg''\<rparr>"

definition jpg_env :: avatar_env where
  "jpg_env = picker_env\<lparr>assets := Some [picked_jpg], list_reply := Resolved (Some [''u1.png'']) None\<rparr>"




section \<open>The unlock evaluator: what it computes and what it writes\<close>

lemma newlyUnlockedTitles_Some:
  "newlyUnlockedTitles T P (Some U) =
     Inr (map title (filter (\<lambda>t. points_required t \<le> P \<and> title t \<notin> set U) T))"
  by (simp add: newlyUnlockedTitles_def)

lemma fetchTitles_calls_no_delta:
  assumes "session_user s = Some u"
      and "titles_reply env = Resolved (Some T) None"
      and "profileData_reply env = Resolved (Some (P, ts)) pe"
      and "newlyUnlockedTitles T P ts = Inr []"
  shows "fetchTitles env s =
           (Inr (), [SelectFrom ''titles'' ''*'' None,
                     SelectFrom ''profiles'' ''points, titles'' (Some (user_id u))],
            s\<lparr>titles_list := T\<rparr>)"
  using assms by (simp add: fetchTitles_def)

lemma fetchTitles_calls_delta:
  assumes "session_user s = Some u"
      and "titles_reply env = Resolved (Some T) None"
      and "profileData_reply env = Resolved (Some (P, Some U)) pe"
      and "newlyUnlockedTitles T P (Some U) = Inr new"
      and "new \<noteq> []"
  shows "\<exists>rest. calls_of (fetchTitles env s) =
           [SelectFrom ''titles'' ''*'' None,
            SelectFrom ''profiles'' ''points, titles'' (Some (user_id u)),
            UpdateProfiles (SetTitles (U @ new)) (user_id u)] @ rest
           \<and> \<not> list_ex is_write rest"
  using assms
  by (simp add: fetchTitles_def calls_of_def Let_def getProfile_def getProfile_try_def
           split: reply.split prod.split option.split)

text \<open>
  On a profile row that holds a list of titles: with a live session, a title table \<open>T\<close>
  and a row with points \<open>P\<close> and unlocked titles \<open>U\<close>, the evaluator computes as newly
  unlocked exactly the titles of \<open>T\<close> whose threshold is at most \<open>P\<close> and that are not
  in \<open>U\<close>, in table order; when there are none it issues its two queries only, and
  otherwise its third call writes \<open>U\<close> followed by the new titles.
\<close>

lemma fetchTitles_unlocks_exactly:
  assumes "session_user s = Some u"
      and "titles_reply env = Resolved (Some T) None"
      and "profileData_reply env = Resolved (Some (P, Some U)) pe"
  shows "\<exists>new. newlyUnlockedTitles T P (Some U) = Inr new
           \<and> new = map title (filter (\<lambda>t. points_required t \<le> P \<and> title t \<notin> set U) T)
           \<and> (\<forall>x. x \<in> set new \<longleftrightarrow> x \<notin> set U \<and> (\<exists>t \<in> set T. title t = x \<and> points_required t \<le> P))
           \<and> (new = [] \<longrightarrow> calls_of (fetchTitles env s) =
                 [SelectFrom ''titles'' ''*'' None, SelectFrom ''profiles'' ''points, titles'' (Some (user_id u))])
           \<and> (new \<noteq> [] \<longrightarrow> take 3 (calls_of (fetchTitles env s)) =
                 [SelectFrom ''titles'' ''*'' None, SelectFrom ''profiles'' ''points, titles'' (Some (user_id u)),
                  UpdateProfiles (SetTitles (U @ new)) (user_id u)])"
proof -
  let ?new = "map title (filter (\<lambda>t. points_required t \<le> P \<and> title t \<notin> set U) T)"
  have n: "newlyUnlockedTitles T P (Some U) = Inr ?new"
    by (rule newlyUnlockedTitles_Some)
  have m: "\<forall>x. x \<in> set ?new \<longleftrightarrow> x \<notin> set U \<and> (\<exists>t \<in> set T. title t = x \<and> points_required t \<le> P)"
    by auto
  have e: "?new = [] \<longrightarrow> calls_of (fetchTitles env s) =
                 [SelectFrom ''titles'' ''*'' None, SelectFrom ''profiles'' ''points, titles'' (Some (user_id u))]"
  proof
    assume "?new = []"
    with n have "newlyUnlockedTitles T P (Some U) = Inr []" by simp
    from fetchTitles_calls_no_delta[OF assms this] show "calls_of (fetchTitles env s) =
                 [SelectFrom ''titles'' ''*'' None, SelectFrom ''profiles'' ''points, titles'' (Some (user_id u))]"
      by (simp add: calls_of_def)
  qed
  have f: "?new \<noteq> [] \<longrightarrow> take 3 (calls_of (fetchTitles env s)) =
                 [SelectFrom ''titles'' ''*'' None, SelectFrom ''profiles'' ''points, titles'' (Some (user_id u)),
                  UpdateProfiles (SetTitles (U @ ?new)) (user_id u)]"
  proof
    assume ne: "?new \<noteq> []"
    from fetchTitles_calls_delta[OF assms n ne] obtain rest where
      "calls_of (fetchTitles env s) =
           [SelectFrom ''titles'' ''*'' None,
            SelectFrom ''profiles'' ''points, titles'' (Some (user_id u)),
            UpdateProfiles (SetTitles (U @ ?new)) (user_id u)] @ rest" by blast
    then show "take 3 (calls_of (fetchTitles env s)) =
                 [SelectFrom ''titles'' ''*'' None, SelectFrom ''profiles'' ''points, titles'' (Some (user_id u)),
                  UpdateProfiles (SetTitles (U @ ?new)) (user_id u)]" by simp
  qed
  from n m e f show ?thesis by blast
qed

text \<open>The scenario of the specification: 50 points, \<open>Rookie\<close> unlocked.\<close>

lemma fetchTitles_scenario:
  "session_user signed_in = Some alice
   \<and> titles_reply scenario_env = Resolved (Some scenario_table) None
   \<and> profileData_reply scenario_env = Resolved (Some (50, Some [''Rookie''])) None
   \<and> newlyUnlockedTitles scenario_table 50 (Some [''Rookie'']) = Inr [''Pro'']
   \<and> take 3 (calls_of (fetchTitles scenario_env signed_in)) =
        [SelectFrom ''titles'' ''*'' None, SelectFrom ''profiles'' ''points, titles'' (Some ''u1''),
         UpdateProfiles (SetTitles [''Rookie'', ''Pro'']) ''u1'']"
proof -
  have h1: "session_user signed_in = Some alice"
    by (simp add: session_user_def signed_in_def)
  have h2: "titles_reply scenario_env = Resolved (Some scenario_table) None"
    by (simp add: scenario_env_def)
  have h3: "profileData_reply scenario_env = Resolved (Some (50, Some [''Rookie''])) None"
    by (simp add: scenario_env_def)
  have v: "map title (filter (\<lambda>t. points_required t \<le> 50 \<and> title t \<notin> set [''Rookie'']) scenario_table) = [''Pro'']"
    by (simp add: scenario_table_def)
  from fetchTitles_unlocks_exactly[OF h1 h2 h3] v h1 h2 h3 show ?thesis
    by (auto simp: alice_def)
qed

text \<open>
  On a profile row that holds a list of titles \<open>U\<close>, let \<open>new\<close> be the titles of the table
  whose threshold the points reach and that are not in \<open>U\<close>. When \<open>new\<close> is not empty,
  the only write of the run is the update of \<open>titles\<close> to \<open>U @ new\<close>, whose elements are
  those of \<open>U\<close> and those of \<open>new\<close> (a union, not a replacement). A second run that
  reads the same points and the extended titles computes an empty delta, writes
  nothing and returns normally.
\<close>

lemma fetchTitles_idempotent:
  assumes "session_user s = Some u"
      and "titles_reply env = Resolved (Some T) None"
      and "profileData_reply env = Resolved (Some (P, Some U)) pe"
      and "new = map title (filter (\<lambda>t. points_required t \<le> P \<and> title t \<notin> set U) T)"
      and "session_user s2 = Some u"
      and "titles_reply env2 = Resolved (Some T) None"
      and "profileData_reply env2 = Resolved (Some (P, Some (U @ new))) pe2"
  shows "(new \<noteq> [] \<longrightarrow>
            filter is_write (calls_of (fetchTitles env s)) = [UpdateProfiles (SetTitles (U @ new)) (user_id u)])
       \<and> set (U @ new) = set U \<union> set new
       \<and> newlyUnlockedTitles T P (Some (U @ new)) = Inr []
       \<and> filter is_write (calls_of (fetchTitles env2 s2)) = []
       \<and> result_of (fetchTitles env2 s2) = Inr ()"
proof -
  note new = assms(4)
  have delta: "newlyUnlockedTitles T P (Some U) = Inr new"
    by (simp add: newlyUnlockedTitles_Some new)
  have a: "new \<noteq> [] \<longrightarrow>
            filter is_write (calls_of (fetchTitles env s)) = [UpdateProfiles (SetTitles (U @ new)) (user_id u)]"
  proof
    assume "new \<noteq> []"
    from fetchTitles_calls_delta[OF assms(1-3) delta this] obtain rest where
      r: "calls_of (fetchTitles env s) =
           [SelectFrom ''titles'' ''*'' None,
            SelectFrom ''profiles'' ''points, titles'' (Some (user_id u)),
            UpdateProfiles (SetTitles (U @ new)) (user_id u)] @ rest" "\<not> list_ex is_write rest" by blast
    from r(2) have "filter is_write rest = []" by (simp add: list_ex_iff filter_empty_conv)
    with r(1) show "filter is_write (calls_of (fetchTitles env s)) = [UpdateProfiles (SetTitles (U @ new)) (user_id u)]"
      by simp
  qed
  have "filter (\<lambda>t. points_required t \<le> P \<and> title t \<notin> set (U @ new)) T = []"
    unfolding new by (auto simp: filter_empty_conv)
  then have b: "newlyUnlockedTitles T P (Some (U @ new)) = Inr []"
    by (simp add: newlyUnlockedTitles_Some)
  from fetchTitles_calls_no_delta[OF assms(5,6,7) b]
  have c: "filter is_write (calls_of (fetchTitles env2 s2)) = [] \<and> result_of (fetchTitles env2 s2) = Inr ()"
    by (simp add: calls_of_def result_of_def)
  from a b c show ?thesis by simp
qed

lemma fetchTitles_idempotent_scenario:
  "session_user signed_in = Some alice
   \<and> newlyUnlockedTitles scenario_table 50 (Some [''Rookie'']) = Inr [''Pro'']
   \<and> [''Pro''] \<noteq> ([]::string list)
   \<and> filter is_write (calls_of (fetchTitles scenario_env signed_in)) =
        [UpdateProfiles (SetTitles [''Rookie'', ''Pro'']) ''u1'']
   \<and> newlyUnlockedTitles scenario_table 50 (Some [''Rookie'', ''Pro'']) = Inr []
   \<and> filter is_write (calls_of (fetchTitles scenario_env_again signed_in)) = []
   \<and> result_of (fetchTitles scenario_env_again signed_in) = Inr ()"
proof -
  have h1: "session_user signed_in = Some alice"
    by (simp add: session_user_def signed_in_def)
  have h2: "titles_reply scenario_env = Resolved (Some scenario_table) None"
    by (simp add: scenario_env_def)
  have h3: "profileData_reply scenario_env = Resolved (Some (50, Some [''Rookie''])) None"
    by (simp add: scenario_env_def)
  have h4: "[''Pro''] = map title (filter (\<lambda>t. points_required t \<le> 50 \<and> title t \<notin> set [''Rookie'']) scenario_table)"
    by (simp add: scenario_table_def)
  have n4: "newlyUnlockedTitles scenario_table 50 (Some [''Rookie'']) = Inr [''Pro'']"
    by (simp add: newlyUnlockedTitles_def scenario_table_def)
  have h6: "titles_reply scenario_env_again = Resolved (Some scenario_table) None"
    by (simp add: scenario_env_again_def scenario_env_def)
  have h7: "profileData_reply scenario_env_again = Resolved (Some (50, Some ([''Rookie''] @ [''Pro'']))) None"
    by (simp add: scenario_env_again_def)
  from fetchTitles_idempotent[OF h1 h2 h3 h4 h1 h6 h7] h1 n4 show ?thesis
    by (simp add: alice_def)
qed

section \<open>The unlock evaluator on a profile row without a title list\<close>

text \<open>
  Claim C1, at a profile row whose \<^verbatim>\<open>titles\<close> is \<^verbatim>\<open>null\<close>. With 50 points and the table of
  the scenario, two thresholds are reached and nothing is unlocked yet, so the newly
  unlocked titles are \<open>Rookie\<close> and \<open>Pro\<close>. Line 95 reads \<^verbatim>\<open>profileData.titles.includes\<close>
  and raises a TypeError: the evaluator computes no titles and the operation fails.
  Line 99 guards the same field (\<^verbatim>\<open>profileData.titles || []\<close>): on the row with an
  empty list instead of \<^verbatim>\<open>null\<close> the evaluator computes the two titles and writes them.
\<close>

theorem fetchTitles_null_titles_throws:
  "newlyUnlockedTitles scenario_table 50 None =
     Inl (TypeError ''Cannot read properties of null (reading includes)'')
   \<and> result_of (fetchTitles null_titles_env signed_in) =
     Inl (TypeError ''Cannot read properties of null (reading includes)'')
   \<and> newlyUnlockedTitles scenario_table 50 (Some []) = Inr [''Rookie'', ''Pro'']
   \<and> filter is_write (calls_of (fetchTitles empty_titles_env signed_in)) =
     [UpdateProfiles (SetTitles [''Rookie'', ''Pro'']) ''u1'']"
  by (simp add: newlyUnlockedTitles_def scenario_table_def fetchTitles_def null_titles_env_def
        empty_titles_env_def scenario_env_def session_user_def signed_in_def alice_def
        result_of_def calls_of_def getProfile_def getProfile_try_def Let_def)

text \<open>
  Claim C2, at the same row. The titles whose threshold is reached are \<open>Rookie\<close> and
  \<open>Pro\<close>, none of them unlocked, so the union to persist is not empty; the run issues
  its two queries, fails at line 95 before the update of line 101, writes nothing and
  leaves the state as it was.
\<close>

theorem fetchTitles_null_titles_persists_nothing:
  "map title (filter (\<lambda>t. points_required t \<le> 50) scenario_table) = [''Rookie'', ''Pro'']
   \<and> profileData_reply null_titles_env = Resolved (Some (50, None)) None
   \<and> calls_of (fetchTitles null_titles_env signed_in) =
     [SelectFrom ''titles'' ''*'' None, SelectFrom ''profiles'' ''points, titles'' (Some ''u1'')]
   \<and> filter is_write (calls_of (fetchTitles null_titles_env signed_in)) = []
   \<and> state_of (fetchTitles null_titles_env signed_in) = signed_in"
  by (simp add: newlyUnlockedTitles_def scenario_table_def fetchTitles_def null_titles_env_def
        scenario_env_def session_user_def signed_in_def alice_def
        state_of_def calls_of_def Let_def)

section \<open>Title selection\<close>

lemma handleSelectTitle_refused:
  assumes "\<not> profile_includes s t"
  shows "handleSelectTitle rp t s =
           (Inl (if session_user s = None then Error ''No user session found''
                 else Error ''You have not unlocked this title yet.''), [], s\<lparr>loading := False\<rparr>)"
  using assms
  by (simp add: handleSelectTitle_def handleSelectTitle_try_def session_user_def profile_includes_def
           split: option.split)

lemma handleSelectTitle_accepted:
  assumes "profile_includes s t" and "session_user s = Some u"
  shows "handleSelectTitle rp t s =
           (case failure rp of
              Some e \<Rightarrow> (Inl e, [UpdateProfiles (SetSelectedTitle t) (user_id u)], s\<lparr>loading := False\<rparr>)
            | None \<Rightarrow>
                (Inr (), [UpdateProfiles (SetSelectedTitle t) (user_id u)],
                 s\<lparr>loading := False,
                   profile := (case profile s of
                                 None \<Rightarrow> None
                               | Some prev \<Rightarrow> Some (prev\<lparr>selected_title := Some t\<rparr>))\<rparr>))"
  using assms
  by (cases rp)
     (auto simp: handleSelectTitle_def handleSelectTitle_try_def session_user_def profile_includes_def
           split: option.split)

text \<open>
  Claim C3. For a title that is not in the snapshot's unlocked set (or with no snapshot,
  or no title list), title selection fails with a precondition error (no session, or
  title not unlocked), issues no call at all and leaves the state as it was but for
  the loading flag. For a title in the unlocked set and a live session, its only call
  is the update of \<open>selected_title\<close> to that title (no query follows); when that update
  succeeds, the operation returns normally and the snapshot is the old one with
  \<open>selected_title\<close> set.
\<close>

theorem handleSelectTitle_requires_unlocked:
  "(\<not> profile_includes s t \<longrightarrow>
      (result_of (handleSelectTitle rp t s) = Inl (Error ''No user session found'')
       \<or> result_of (handleSelectTitle rp t s) = Inl (Error ''You have not unlocked this title yet.''))
      \<and> (session_user s \<noteq> None \<longrightarrow>
           result_of (handleSelectTitle rp t s) = Inl (Error ''You have not unlocked this title yet.''))
      \<and> calls_of (handleSelectTitle rp t s) = []
      \<and> state_of (handleSelectTitle rp t s) = s\<lparr>loading := False\<rparr>)
   \<and> (profile_includes s t \<and> session_user s = Some u \<longrightarrow>
      calls_of (handleSelectTitle rp t s) = [UpdateProfiles (SetSelectedTitle t) (user_id u)]
      \<and> (failure rp = None \<longrightarrow>
           result_of (handleSelectTitle rp t s) = Inr ()
           \<and> (\<exists>prev. profile s = Some prev
                 \<and> profile (state_of (handleSelectTitle rp t s)) = Some (prev\<lparr>selected_title := Some t\<rparr>))))"
proof (intro conjI impI)
  assume n: "\<not> profile_includes s t"
  note r = handleSelectTitle_refused[OF n, of rp]
  show "result_of (handleSelectTitle rp t s) = Inl (Error ''No user session found'')
       \<or> result_of (handleSelectTitle rp t s) = Inl (Error ''You have not unlocked this title yet.'')"
    by (simp add: r result_of_def)
  show "calls_of (handleSelectTitle rp t s) = []"
    by (simp add: r calls_of_def)
  show "state_of (handleSelectTitle rp t s) = s\<lparr>loading := False\<rparr>"
    by (simp add: r state_of_def)
  assume "session_user s \<noteq> None"
  then show "result_of (handleSelectTitle rp t s) = Inl (Error ''You have not unlocked this title yet.'')"
    by (simp add: r result_of_def)
next
  assume a: "profile_includes s t \<and> session_user s = Some u"
  then have a1: "profile_includes s t" and a2: "session_user s = Some u" by simp_all
  note r = handleSelectTitle_accepted[OF a1 a2, of rp]
  show "calls_of (handleSelectTitle rp t s) = [UpdateProfiles (SetSelectedTitle t) (user_id u)]"
    by (simp add: r calls_of_def split: option.split)
  assume f: "failure rp = None"
  show "result_of (handleSelectTitle rp t s) = Inr ()"
    by (simp add: r f result_of_def)
  from a1 obtain prev where p: "profile s = Some prev"
    by (auto simp: profile_includes_def split: option.splits)
  show "\<exists>prev. profile s = Some prev
          \<and> profile (state_of (handleSelectTitle rp t s)) = Some (prev\<lparr>selected_title := Some t\<rparr>)"
    by (simp add: r f p state_of_def)
qed

theorem handleSelectTitle_witness:
  "\<not> profile_includes signed_in ''Elite''
   \<and> session_user signed_in \<noteq> None
   \<and> result_of (handleSelectTitle ok_reply ''Elite'' signed_in) = Inl (Error ''You have not unlocked this title yet.'')
   \<and> calls_of (handleSelectTitle ok_reply ''Elite'' signed_in) = []
   \<and> state_of (handleSelectTitle ok_reply ''Elite'' signed_in) = signed_in
   \<and> profile_includes signed_in ''Rookie''
   \<and> session_user signed_in = Some alice
   \<and> failure ok_reply = None
   \<and> calls_of (handleSelectTitle ok_reply ''Rookie'' signed_in) = [UpdateProfiles (SetSelectedTitle ''Rookie'') ''u1'']
   \<and> result_of (handleSelectTitle ok_reply ''Rookie'' signed_in) = Inr ()
   \<and> profile (state_of (handleSelectTitle ok_reply ''Rookie'' signed_in)) = Some alice_profile"
proof -
  have h1: "\<not> profile_includes signed_in ''Elite''"
    by (simp add: profile_includes_def signed_in_def alice_profile_def)
  have h2: "session_user signed_in = Some alice"
    by (simp add: session_user_def signed_in_def)
  have h3: "profile_includes signed_in ''Rookie''"
    by (simp add: profile_includes_def signed_in_def alice_profile_def)
  have h4: "failure ok_reply = None"
    by (simp add: ok_reply_def)
  have h5: "signed_in\<lparr>loading := False\<rparr> = signed_in"
    by (simp add: signed_in_def)
  have h6: "profile signed_in = Some alice_profile"
    by (simp add: signed_in_def)
  have h7: "alice_profile\<lparr>selected_title := Some ''Rookie''\<rparr> = alice_profile"
    by (simp add: alice_profile_def)
  from handleSelectTitle_requires_unlocked[of signed_in "''Elite''" ok_reply alice]
       handleSelectTitle_requires_unlocked[of signed_in "''Rookie''" ok_reply alice]
       h1 h2 h3 h4 h5 h6 h7
  show ?thesis by (auto simp: alice_def)
qed

section \<open>Sign-out\<close>

lemma handleSignOut_eq:
  "handleSignOut rp s =
     (case failure rp of
        Some e \<Rightarrow> (Inl e, [AuthSignOut], s\<lparr>loading := False\<rparr>)
      | None \<Rightarrow> (Inr (), [AuthSignOut], s\<lparr>loading := False, session := None, profile := None\<rparr>))"
  by (cases rp) (auto simp: handleSignOut_def handleSignOut_try_def split: option.split)

text \<open>
  Claim C4, as the code has it. A sign-out whose remote call succeeds returns normally
  and clears the session and the snapshot; one whose remote call fails (a rejection
  or an answer carrying an error) raises that failure and leaves both as they were.
  Either way the two are cleared together or not at all, and the loading flag ends
  false.
\<close>

theorem handleSignOut_clears_both_or_neither:
  "(failure rp = None \<longrightarrow>
      result_of (handleSignOut rp s) = Inr ()
      \<and> session (state_of (handleSignOut rp s)) = None
      \<and> profile (state_of (handleSignOut rp s)) = None)
   \<and> (failure rp = Some e \<longrightarrow>
      result_of (handleSignOut rp s) = Inl e
      \<and> session (state_of (handleSignOut rp s)) = session s
      \<and> profile (state_of (handleSignOut rp s)) = profile s)
   \<and> (session (state_of (handleSignOut rp s)) = None \<and> profile (state_of (handleSignOut rp s)) = None
      \<or> session (state_of (handleSignOut rp s)) = session s \<and> profile (state_of (handleSignOut rp s)) = profile s)
   \<and> loading (state_of (handleSignOut rp s)) = False
   \<and> calls_of (handleSignOut rp s) = [AuthSignOut]"
  by (cases "failure rp") (simp_all add: handleSignOut_eq result_of_def state_of_def calls_of_def)

theorem handleSignOut_witness:
  "failure ok_reply = None
   \<and> result_of (handleSignOut ok_reply signed_in) = Inr ()
   \<and> session (state_of (handleSignOut ok_reply signed_in)) = None
   \<and> profile (state_of (handleSignOut ok_reply signed_in)) = None
   \<and> failure failed_reply = Some (RemoteError ''service unavailable'')
   \<and> result_of (handleSignOut failed_reply signed_in) = Inl (RemoteError ''service unavailable'')
   \<and> session (state_of (handleSignOut failed_reply signed_in)) = session signed_in
   \<and> profile (state_of (handleSignOut failed_reply signed_in)) = profile signed_in"
  using handleSignOut_clears_both_or_neither[of ok_reply signed_in "RemoteError ''service unavailable''"]
        handleSignOut_clears_both_or_neither[of failed_reply signed_in "RemoteError ''service unavailable''"]
  by (simp add: ok_reply_def failed_reply_def)

text \<open>Claim C4 as the specification states it (both cleared on every outcome) fails:
  after a sign-out whose remote call fails, the session and the snapshot are both
  still there.\<close>

theorem handleSignOut_failure_counterexample:
  "result_of (handleSignOut failed_reply signed_in) = Inl (RemoteError ''service unavailable'')
   \<and> session (state_of (handleSignOut failed_reply signed_in)) = Some (Session (Some alice))
   \<and> profile (state_of (handleSignOut failed_reply signed_in)) = Some alice_profile"
  by (simp add: handleSignOut_def handleSignOut_try_def failed_reply_def signed_in_def
        result_of_def state_of_def)

section \<open>The avatar protocol: permission, cleanup, upload\<close>

text \<open>
  Claim C6. When the media permission is not granted, the picker operation returns
  normally (no error reaches the caller), the only call it has issued is the
  permission request itself (no listing, removal, upload, fetch or profile write), and
  the state is the one it started from with the uploading flag false.
\<close>

theorem handleImagePicker_permission_denied:
  "permission_status env \<noteq> ''granted'' \<Longrightarrow>
     result_of (handleImagePicker env s) = Inr ()
     \<and> calls_of (handleImagePicker env s) = [RequestMediaLibraryPermissions]
     \<and> filter is_write (calls_of (handleImagePicker env s)) = []
     \<and> state_of (handleImagePicker env s) = s\<lparr>uploading := False\<rparr>
     \<and> uploading (state_of (handleImagePicker env s)) = False"
  by (simp add: handleImagePicker_def handleImagePicker_try_def result_of_def calls_of_def state_of_def)

theorem handleImagePicker_permission_denied_witness:
  "permission_status (picker_env\<lparr>permission_status := ''denied''\<rparr>) \<noteq> ''granted''
   \<and> result_of (handleImagePicker (picker_env\<lparr>permission_status := ''denied''\<rparr>) signed_in) = Inr ()
   \<and> calls_of (handleImagePicker (picker_env\<lparr>permission_status := ''denied''\<rparr>) signed_in) =
        [RequestMediaLibraryPermissions]
   \<and> state_of (handleImagePicker (picker_env\<lparr>permission_status := ''denied''\<rparr>) signed_in) = signed_in"
proof -
  have h: "permission_status (picker_env\<lparr>permission_status := ''denied''\<rparr>) \<noteq> ''granted''"
    by simp
  have e: "signed_in\<lparr>uploading := False\<rparr> = signed_in"
    by (simp add: signed_in_def)
  from handleImagePicker_permission_denied[OF h, of signed_in] h e show ?thesis
    by simp
qed

lemma session_user_loading [simp]: "session_user (s\<lparr>loading := b\<rparr>) = session_user s"
  by (simp add: session_user_def)

lemma session_user_uploading [simp]: "session_user (s\<lparr>uploading := b\<rparr>) = session_user s"
  by (simp add: session_user_def)

lemma handleAvatarUpload_eq:
  "handleAvatarUpload rp clock url s =
     (case session_user s of
        None \<Rightarrow> (Inl (Error ''No user session found''), [], s\<lparr>loading := False\<rparr>)
      | Some u \<Rightarrow>
          (case failure rp of
             Some e \<Rightarrow> (Inl e, [UpsertProfiles (user_id u) url clock], s\<lparr>loading := False\<rparr>)
           | None \<Rightarrow>
               (Inr (), [UpsertProfiles (user_id u) url clock],
                s\<lparr>loading := False,
                  profile := (case profile s of
                                None \<Rightarrow> None
                              | Some prev \<Rightarrow> Some (prev\<lparr>avatar_url := Some url\<rparr>))\<rparr>)))"
  by (cases rp)
     (auto simp: handleAvatarUpload_def handleAvatarUpload_try_def Let_def split: option.split)

lemma handleAvatarUpload_calls:
  "filter is_storage_write (fst (snd (handleAvatarUpload rp clock url s))) = []"
  by (simp add: handleAvatarUpload_eq is_storage_write_def split: option.split)

lemma handleImagePicker_write_storage:
  assumes "filter is_storage_write cs = pre"
  shows "filter is_storage_write (calls_of (handleImagePicker_write env file path cs s)) =
           (case fetch_reply env of
              FetchResponse True _ body \<Rightarrow>
                pre @ [StorageUpload path body (ContentType (or_default (mimeType file) ''image/jpeg''))]
            | _ \<Rightarrow> pre)"
proof (cases "fetch_reply env")
  case (FetchRejected e)
  then show ?thesis
    using assms by (simp add: handleImagePicker_write_def calls_of_def is_storage_write_def)
next
  case (FetchResponse ok statusText body)
  show ?thesis
  proof (cases ok)
    case False
    with FetchResponse show ?thesis
      using assms by (simp add: handleImagePicker_write_def calls_of_def is_storage_write_def)
  next
    case True
    note up = handleAvatarUpload_calls[of "upsert_reply env" "now env" _ s]
    show ?thesis
    proof (cases "upload_reply env")
      case (Rejected e)
      with FetchResponse True show ?thesis
        using assms by (simp add: handleImagePicker_write_def calls_of_def is_storage_write_def)
    next
      case (Resolved d error)
      show ?thesis
      proof (cases error)
        case (Some e)
        with Resolved FetchResponse True show ?thesis
          using assms by (simp add: handleImagePicker_write_def calls_of_def is_storage_write_def)
      next
        case None
        show ?thesis
        proof (cases "publicUrlData env")
          case n: None
          with None Resolved FetchResponse True show ?thesis
            using assms by (simp add: handleImagePicker_write_def calls_of_def is_storage_write_def)
        next
          case (Some url)
          with None Resolved FetchResponse True show ?thesis
            using assms
            by (simp add: handleImagePicker_write_def calls_of_def is_storage_write_def
                  case_prod_beta up)
        qed
      qed
    qed
  qed
qed

lemma handleImagePicker_write_prefix:
  "\<exists>rest. calls_of (handleImagePicker_write env file path cs s) = cs @ Fetch (uri file) # rest"
  by (simp add: handleImagePicker_write_def calls_of_def Let_def case_prod_beta
        split: fetch_reply.split reply.split option.split)

lemma calls_of_handleImagePicker:
  "calls_of (handleImagePicker env s) = calls_of (handleImagePicker_try env (s\<lparr>uploading := True\<rparr>))"
  by (simp add: handleImagePicker_def calls_of_def case_prod_beta)

lemma handleImagePicker_try_listed:
  assumes "permission_status env = ''granted''" and "\<not> canceled env"
      and "assets env = Some (file # others)" and "session_user s = Some u"
      and "list_reply env = Resolved existingFiles None"
      and "path = user_id u @ ''.'' @ template (pop (split (CHR ''.'') (uri file)))"
  shows "handleImagePicker_try env s =
           (if existingFiles = None \<or> existingFiles = Some [] then
              handleImagePicker_write env file path
                [RequestMediaLibraryPermissions, LaunchImageLibrary, StorageList (user_id u)] s
            else
              (case failure (remove_reply env) of
                 Some e \<Rightarrow>
                   (Inl e, [RequestMediaLibraryPermissions, LaunchImageLibrary, StorageList (user_id u),
                            StorageRemove [path]], s)
               | None \<Rightarrow>
                   handleImagePicker_write env file path
                     [RequestMediaLibraryPermissions, LaunchImageLibrary, StorageList (user_id u),
                      StorageRemove [path]] s))"
proof (cases "remove_reply env")
  case (Rejected e)
  with assms show ?thesis
    by (auto simp: handleImagePicker_try_def Let_def split: option.split list.split)
next
  case (Resolved d error)
  with assms show ?thesis
    by (cases error) (auto simp: handleImagePicker_try_def Let_def split: option.split list.split)
qed

text \<open>
  The order of the calls. Once the picker has a file and the listing of the user's
  earlier objects has answered: when the listing names at least one object, the call that follows it
  is the removal of the one key derived from the user id, and the writes to the
  object store are that removal followed (when the removal and the reading of the
  file succeed) by the upload under the same key, never an upload first; when the
  listing names none, no removal is issued, the call after the listing is the
  reading of the file, and the only write to the object store is the upload.
\<close>

lemma handleImagePicker_delete_before_write:
  assumes "permission_status env = ''granted''" and "\<not> canceled env"
      and "assets env = Some (file # others)" and "session_user s = Some u"
      and "list_reply env = Resolved existingFiles None"
      and "path = user_id u @ ''.'' @ template (pop (split (CHR ''.'') (uri file)))"
      and "upload = (case fetch_reply env of
                       FetchResponse True _ body \<Rightarrow>
                         [StorageUpload path body (ContentType (or_default (mimeType file) ''image/jpeg''))]
                     | _ \<Rightarrow> [])"
  shows "((\<exists>f fs. existingFiles = Some (f # fs)) \<longrightarrow>
            take 4 (calls_of (handleImagePicker env s)) =
              [RequestMediaLibraryPermissions, LaunchImageLibrary, StorageList (user_id u), StorageRemove [path]]
            \<and> filter is_storage_write (calls_of (handleImagePicker env s)) =
                (if failure (remove_reply env) = None then StorageRemove [path] # upload
                 else [StorageRemove [path]]))
       \<and> (existingFiles = None \<or> existingFiles = Some [] \<longrightarrow>
            take 4 (calls_of (handleImagePicker env s)) =
              [RequestMediaLibraryPermissions, LaunchImageLibrary, StorageList (user_id u), Fetch (uri file)]
            \<and> filter is_storage_write (calls_of (handleImagePicker env s)) = upload)"
proof -
  let ?s = "s\<lparr>uploading := True\<rparr>"
  have su: "session_user ?s = Some u"
    using assms(4) by simp
  note t = handleImagePicker_try_listed[OF assms(1,2,3) su assms(5,6)]
  have listed: "take 4 (calls_of (handleImagePicker env s)) =
              [RequestMediaLibraryPermissions, LaunchImageLibrary, StorageList (user_id u), StorageRemove [path]]
            \<and> filter is_storage_write (calls_of (handleImagePicker env s)) =
                (if failure (remove_reply env) = None then StorageRemove [path] # upload
                 else [StorageRemove [path]])"
    if "\<exists>f fs. existingFiles = Some (f # fs)"
  proof -
    let ?cs = "[RequestMediaLibraryPermissions, LaunchImageLibrary, StorageList (user_id u), StorageRemove [path]]"
    from that have n1: "existingFiles \<noteq> None" and n2: "existingFiles \<noteq> Some []" by auto
    have t1: "handleImagePicker_try env ?s =
                (case failure (remove_reply env) of
                   Some e \<Rightarrow> (Inl e, ?cs, ?s)
                 | None \<Rightarrow> handleImagePicker_write env file path ?cs ?s)"
      using n1 n2 by (auto simp: t)
    show ?thesis
    proof (cases "failure (remove_reply env)")
      case (Some e)
      then have "calls_of (handleImagePicker env s) = ?cs"
        by (simp add: calls_of_handleImagePicker t1) (simp add: calls_of_def)
      with Some show ?thesis
        by (simp add: is_storage_write_def)
    next
      case None
      then have c: "calls_of (handleImagePicker env s) = calls_of (handleImagePicker_write env file path ?cs ?s)"
        by (simp add: calls_of_handleImagePicker t1)
      obtain rest where r: "calls_of (handleImagePicker_write env file path ?cs ?s) = ?cs @ Fetch (uri file) # rest"
        using handleImagePicker_write_prefix by blast
      have f: "filter is_storage_write ?cs = [StorageRemove [path]]"
        by (simp add: is_storage_write_def)
      have w: "filter is_storage_write (calls_of (handleImagePicker_write env file path ?cs ?s)) =
                 StorageRemove [path] # upload"
        unfolding handleImagePicker_write_storage[OF f] assms(7)
        by (simp split: fetch_reply.split bool.split)
      from None c r w show ?thesis by simp
    qed
  qed
  have unlisted: "take 4 (calls_of (handleImagePicker env s)) =
              [RequestMediaLibraryPermissions, LaunchImageLibrary, StorageList (user_id u), Fetch (uri file)]
            \<and> filter is_storage_write (calls_of (handleImagePicker env s)) = upload"
    if "existingFiles = None \<or> existingFiles = Some []"
  proof -
    let ?cs = "[RequestMediaLibraryPermissions, LaunchImageLibrary, StorageList (user_id u)]"
    have t2: "handleImagePicker_try env ?s = handleImagePicker_write env file path ?cs ?s"
      using that t by presburger
    then have c: "calls_of (handleImagePicker env s) = calls_of (handleImagePicker_write env file path ?cs ?s)"
      by (simp add: calls_of_handleImagePicker)
    obtain rest where r: "calls_of (handleImagePicker_write env file path ?cs ?s) = ?cs @ Fetch (uri file) # rest"
      using handleImagePicker_write_prefix by blast
    have f: "filter is_storage_write ?cs = []"
      by (simp add: is_storage_write_def)
    have w: "filter is_storage_write (calls_of (handleImagePicker_write env file path ?cs ?s)) = upload"
      unfolding handleImagePicker_write_storage[OF f] assms(7)
      by (simp split: fetch_reply.split bool.split)
    from c r w show ?thesis by simp
  qed
  from listed unlisted show ?thesis by blast
qed

lemma handleImagePicker_delete_before_write_scenario:
  "permission_status picker_env = ''granted''
   \<and> \<not> canceled picker_env
   \<and> assets picker_env = Some [picked]
   \<and> session_user signed_in = Some alice
   \<and> list_reply picker_env = Resolved (Some [''me.png'']) None
   \<and> take 4 (calls_of (handleImagePicker picker_env signed_in)) =
        [RequestMediaLibraryPermissions, LaunchImageLibrary, StorageList ''u1'', StorageRemove [''u1.png'']]
   \<and> filter is_storage_write (calls_of (handleImagePicker picker_env signed_in)) =
        [StorageRemove [''u1.png''], StorageUpload ''u1.png'' ''bytes'' (ContentType ''image/png'')]
   \<and> list_reply (picker_env\<lparr>list_reply := Resolved (Some []) None\<rparr>) = Resolved (Some []) None
   \<and> take 4 (calls_of (handleImagePicker (picker_env\<lparr>list_reply := Resolved (Some []) None\<rparr>) signed_in)) =
        [RequestMediaLibraryPermissions, LaunchImageLibrary, StorageList ''u1'', Fetch ''file:///photos/me.png'']
   \<and> filter is_storage_write
         (calls_of (handleImagePicker (picker_env\<lparr>list_reply := Resolved (Some []) None\<rparr>) signed_in)) =
        [StorageUpload ''u1.png'' ''bytes'' (ContentType ''image/png'')]"
proof -
  let ?env = "picker_env\<lparr>list_reply := Resolved (Some []) None\<rparr>"
  have h1: "permission_status picker_env = ''granted''" and h2: "\<not> canceled picker_env"
    and h3: "assets picker_env = Some (picked # [])"
    and h5: "list_reply picker_env = Resolved (Some [''me.png'']) None"
    by (simp_all add: picker_env_def)
  have h4: "session_user signed_in = Some alice"
    by (simp add: session_user_def signed_in_def)
  have g1: "permission_status ?env = ''granted''" and g2: "\<not> canceled ?env"
    and g3: "assets ?env = Some (picked # [])"
    and g5: "list_reply ?env = Resolved (Some []) None"
    by (simp_all add: picker_env_def)
  have ext: "pop (split (CHR ''.'') (uri picked)) = Some ''png''"
    by (simp add: picked_def pop_def)
  have v: "user_id alice @ ''.'' @ template (pop (split (CHR ''.'') (uri picked))) = ''u1.png''"
    by (simp add: ext template_def alice_def)
  have m: "or_default (mimeType picked) ''image/jpeg'' = ''image/png''"
    by (simp add: picked_def or_default_def)
  have f: "fetch_reply picker_env = FetchResponse True ''OK'' ''bytes''"
          "fetch_reply ?env = FetchResponse True ''OK'' ''bytes''"
          "failure (remove_reply picker_env) = None"
    by (simp_all add: picker_env_def ok_reply_def)
  have u: "uri picked = ''file:///photos/me.png''" "user_id alice = ''u1''"
    by (simp_all add: picked_def alice_def)
  from handleImagePicker_delete_before_write[OF h1 h2 h3 h4 h5 refl refl]
       handleImagePicker_delete_before_write[OF g1 g2 g3 h4 g5 refl refl]
       h1 h2 h3 h4 h5 g5
  show ?thesis
    unfolding v m f u by (simp add: pop_def template_def)
qed

section \<open>The key the picker removes\<close>

text \<open>
  Claim C5, for a user whose stored avatar is \<open>u1.png\<close> and who picks a \<open>.jpg\<close> file.
  The listing names the earlier object, so the removal is issued, but its key is
  built from the picked file (lines 177-179) and not from the listing: the run removes
  \<open>u1.jpg\<close>, uploads \<open>u1.jpg\<close> and returns normally, and the earlier object \<open>u1.png\<close>
  is never removed.
\<close>

theorem handleImagePicker_removes_new_key_only:
  "list_reply jpg_env = Resolved (Some [''u1.png'']) None
   \<and> result_of (handleImagePicker jpg_env signed_in) = Inr ()
   \<and> filter is_storage_write (calls_of (handleImagePicker jpg_env signed_in)) =
     [StorageRemove [''u1.jpg''], StorageUpload ''u1.jpg'' ''bytes'' (ContentType ''image/jpeg'')]
   \<and> StorageRemove [''u1.png''] \<notin> set (calls_of (handleImagePicker jpg_env signed_in))"
  by (simp add: handleImagePicker_def handleImagePicker_try_def handleImagePicker_write_def
        handleAvatarUpload_def handleAvatarUpload_try_def jpg_env_def picker_env_def picked_jpg_def
        ok_reply_def session_user_def signed_in_def alice_def pop_def template_def or_default_def
        is_storage_write_def result_of_def calls_of_def Let_def)

section \<open>Uploading an avatar from an address\<close>

text \<open>
  Claim C9. For a string that starts with neither \<open>http\<close> nor \<open>data:\<close>, the upload
  operation fails without having issued any call (no fetch, no upload, no profile
  write) and leaves the state as it was with the uploading flag false; for an
  authenticated user the error is \<open>Invalid image URI\<close>. (With no authenticated user
  the earlier guard of line 256 raises \<open>User not authenticated\<close> instead.)
\<close>

theorem uploadAvatar_invalid_uri:
  assumes "\<not> startsWith str ''http''" and "\<not> startsWith str ''data:''"
  shows "(\<forall>u. session_user s = Some u \<and> user_id u \<noteq> [] \<longrightarrow>
            result_of (uploadAvatar env (Uri str) s) = Inl (Error ''Invalid image URI''))
       \<and> (result_of (uploadAvatar env (Uri str) s) = Inl (Error ''Invalid image URI'')
          \<or> result_of (uploadAvatar env (Uri str) s) = Inl (Error ''User not authenticated''))
       \<and> calls_of (uploadAvatar env (Uri str) s) = []
       \<and> state_of (uploadAvatar env (Uri str) s) = s\<lparr>uploading := False\<rparr>
       \<and> uploading (state_of (uploadAvatar env (Uri str) s)) = False"
  using assms
  by (auto simp: uploadAvatar_def uploadAvatar_try_def result_of_def calls_of_def state_of_def Let_def
        split: option.split)

theorem uploadAvatar_invalid_uri_witness:
  "\<not> startsWith ''file:///photos/me.png'' ''http''
   \<and> \<not> startsWith ''file:///photos/me.png'' ''data:''
   \<and> session_user signed_in = Some alice
   \<and> user_id alice \<noteq> []
   \<and> result_of (uploadAvatar picker_env (Uri ''file:///photos/me.png'') signed_in) = Inl (Error ''Invalid image URI'')
   \<and> calls_of (uploadAvatar picker_env (Uri ''file:///photos/me.png'') signed_in) = []
   \<and> state_of (uploadAvatar picker_env (Uri ''file:///photos/me.png'') signed_in) = signed_in"
proof -
  have h1: "\<not> startsWith ''file:///photos/me.png'' ''http''"
    and h2: "\<not> startsWith ''file:///photos/me.png'' ''data:''"
    by (simp_all add: startsWith_def)
  have h3: "session_user signed_in = Some alice" and h4: "user_id alice \<noteq> []"
    by (simp_all add: session_user_def signed_in_def alice_def)
  have e: "signed_in\<lparr>uploading := False\<rparr> = signed_in"
    by (simp add: signed_in_def)
  from uploadAvatar_invalid_uri[OF h1 h2, of signed_in picker_env] h1 h2 h3 h4 e
  show ?thesis by auto
qed

section \<open>Favorites\<close>




section \<open>Which failures reach the caller\<close>

lemma getProfile_eq:
  "getProfile rp status s =
     (case session_user s of
        None \<Rightarrow> (Inl (Error ''No user on the session!''), [], s\<lparr>loading := False\<rparr>)
      | Some u \<Rightarrow>
          (case rp of
             Rejected e \<Rightarrow>
               (Inl e, [SelectFrom ''profiles'' profile_columns (Some (user_id u))], s\<lparr>loading := False\<rparr>)
           | Resolved data error \<Rightarrow>
               if error \<noteq> None \<and> status \<noteq> 406 then
                 (Inl (the error), [SelectFrom ''profiles'' profile_columns (Some (user_id u))],
                  s\<lparr>loading := False\<rparr>)
               else
                 (Inr (), [SelectFrom ''profiles'' profile_columns (Some (user_id u))],
                  s\<lparr>loading := False,
                    profile := (case data of None \<Rightarrow> profile s | Some d \<Rightarrow> Some d)\<rparr>)))"
  by (auto simp: getProfile_def getProfile_try_def Let_def split: option.split reply.split)

























section \<open>The invariant on the selected title\<close>

lemma snapshot_ok_flags [simp]:
  "snapshot_ok (s\<lparr>loading := b\<rparr>) = snapshot_ok s"
  "snapshot_ok (s\<lparr>uploading := b\<rparr>) = snapshot_ok s"
  "snapshot_ok (s\<lparr>titles_list := ts\<rparr>) = snapshot_ok s"
  by (simp_all add: snapshot_ok_def)

lemma selected_ok_avatar [simp]: "selected_ok (p\<lparr>avatar_url := a\<rparr>) = selected_ok p"
  by (simp add: selected_ok_def split: option.split)

lemma profile_includes_loading [simp]: "profile_includes (s\<lparr>loading := b\<rparr>) t = profile_includes s t"
  by (simp add: profile_includes_def)

lemma handleSelectTitle_keeps_invariant:
  assumes "snapshot_ok s"
  shows "snapshot_ok (state_of (handleSelectTitle rp t s))"
proof (cases "profile_includes s t \<and> session_user s \<noteq> None")
  case False
  then consider "\<not> profile_includes s t" | "session_user s = None" by blast
  then show ?thesis
  proof cases
    case 1
    with assms show ?thesis
      by (simp add: handleSelectTitle_refused state_of_def)
  next
    case 2
    with assms show ?thesis
      by (simp add: handleSelectTitle_def handleSelectTitle_try_def state_of_def)
  qed
next
  case True
  then obtain u where u: "session_user s = Some u" and inc: "profile_includes s t" by auto
  from inc obtain p ts where p: "profile s = Some p" "titles p = Some ts" "t \<in> set ts"
    by (auto simp: profile_includes_def split: option.splits)
  then have "selected_ok (p\<lparr>selected_title := Some t\<rparr>)"
    by (simp add: selected_ok_def)
  with assms p show ?thesis
    by (cases "failure rp") (simp_all add: handleSelectTitle_accepted[OF inc u] state_of_def snapshot_ok_def)
qed

lemma handleSignOut_keeps_invariant:
  "snapshot_ok s \<Longrightarrow> snapshot_ok (state_of (handleSignOut rp s))"
  by (auto simp: handleSignOut_eq state_of_def snapshot_ok_def split: option.splits)

lemma handleAvatarUpload_keeps_invariant:
  "snapshot_ok s \<Longrightarrow> snapshot_ok (snd (snd (handleAvatarUpload rp clock url s)))"
  by (auto simp: handleAvatarUpload_eq snapshot_ok_def split: option.split)

lemma handleImagePicker_write_keeps_invariant:
  "snapshot_ok s \<Longrightarrow> snapshot_ok (snd (snd (handleImagePicker_write env file path cs s)))"
  by (auto simp: handleImagePicker_write_def Let_def case_prod_beta handleAvatarUpload_keeps_invariant
        split: fetch_reply.split reply.split option.split)

lemma handleImagePicker_keeps_invariant:
  "snapshot_ok s \<Longrightarrow> snapshot_ok (state_of (handleImagePicker env s))"
  by (auto simp: handleImagePicker_def handleImagePicker_try_def state_of_def Let_def case_prod_beta
        handleImagePicker_write_keeps_invariant
        split: reply.split option.split list.split)

lemma uploadAvatar_store_keeps_invariant:
  "snapshot_ok s \<Longrightarrow> snapshot_ok (snd (snd (uploadAvatar_store env userId ext body cs s)))"
  by (auto simp: uploadAvatar_store_def Let_def case_prod_beta handleAvatarUpload_keeps_invariant
        split: reply.split option.split)

lemma uploadAvatar_keeps_invariant:
  "snapshot_ok s \<Longrightarrow> snapshot_ok (state_of (uploadAvatar env src s))"
  by (auto simp: uploadAvatar_def uploadAvatar_try_def state_of_def Let_def case_prod_beta
        uploadAvatar_store_keeps_invariant
        split: fetch_reply.split avatar_source.split)

lemma getProfile_keeps_invariant:
  "snapshot_ok s \<Longrightarrow> loaded_ok prp \<Longrightarrow> snapshot_ok (snd (snd (getProfile prp status s)))"
  by (auto simp: getProfile_eq snapshot_ok_def loaded_ok_def split: option.split reply.split)

lemma fetchTitles_keeps_invariant:
  "snapshot_ok s \<Longrightarrow> loaded_ok (refresh_reply tenv) \<Longrightarrow> snapshot_ok (state_of (fetchTitles tenv s))"
  by (auto simp: fetchTitles_def state_of_def Let_def case_prod_beta getProfile_keeps_invariant
        split: reply.split option.split sum.split prod.split)

lemma handleSelectTitle_writes_member:
  "UpdateProfiles (SetSelectedTitle t') uid \<in> set (calls_of (handleSelectTitle rp t s)) \<Longrightarrow>
     t' = t \<and> profile_includes s t"
  by (auto simp: handleSelectTitle_def handleSelectTitle_try_def calls_of_def Let_def
        split: option.splits reply.splits if_splits)

lemma fetchTitles_only_extends:
  "UpdateProfiles (SetTitles ts) uid \<in> set (calls_of (fetchTitles tenv s)) \<Longrightarrow>
     \<exists>pts old x. profileData_reply tenv = Resolved (Some (pts, old)) x
        \<and> set (case old of None \<Rightarrow> [] | Some U \<Rightarrow> U) \<subseteq> set ts"
  by (auto simp: fetchTitles_def calls_of_def Let_def case_prod_beta getProfile_eq
        split: option.splits reply.splits if_splits sum.splits prod.splits)

text \<open>
  Claim C8. If the snapshot satisfies the invariant (a selected title is one of the
  snapshot's titles), it still does after every operation of the hook: title
  selection, sign-out, the three avatar operations, and the two operations that load
  a row from the record store, provided the loaded row satisfies the invariant
  itself. The writes keep it on the store's side as well: title selection only ever
  writes the requested title, and only when the snapshot's titles hold it; every
  list of titles the unlock evaluator writes contains all the titles it read; a
  successful sign-out leaves no snapshot.
\<close>

theorem selected_title_invariant_preserved:
  assumes "snapshot_ok s"
  shows "snapshot_ok (state_of (handleSelectTitle rp t s))
       \<and> snapshot_ok (state_of (handleSignOut rp s))
       \<and> snapshot_ok (state_of (handleAvatarUpload rp clock url s))
       \<and> snapshot_ok (state_of (handleImagePicker env s))
       \<and> snapshot_ok (state_of (uploadAvatar env src s))
       \<and> (loaded_ok prp \<longrightarrow> snapshot_ok (state_of (getProfile prp status s)))
       \<and> (loaded_ok (refresh_reply tenv) \<longrightarrow> snapshot_ok (state_of (fetchTitles tenv s)))
       \<and> (\<forall>t' uid. UpdateProfiles (SetSelectedTitle t') uid \<in> set (calls_of (handleSelectTitle rp t s)) \<longrightarrow>
             t' = t \<and> profile_includes s t)
       \<and> (\<forall>ts uid. UpdateProfiles (SetTitles ts) uid \<in> set (calls_of (fetchTitles tenv s)) \<longrightarrow>
             (\<exists>pts old x. profileData_reply tenv = Resolved (Some (pts, old)) x
                \<and> set (case old of None \<Rightarrow> [] | Some U \<Rightarrow> U) \<subseteq> set ts))
       \<and> (failure rp = None \<longrightarrow> profile (state_of (handleSignOut rp s)) = None)"
proof -
  have "snapshot_ok (state_of (handleAvatarUpload rp clock url s))"
    using assms by (simp add: state_of_def handleAvatarUpload_keeps_invariant)
  moreover have "loaded_ok prp \<longrightarrow> snapshot_ok (state_of (getProfile prp status s))"
    using assms by (simp add: state_of_def getProfile_keeps_invariant)
  moreover have "failure rp = None \<longrightarrow> profile (state_of (handleSignOut rp s)) = None"
    by (simp add: handleSignOut_eq state_of_def)
  ultimately show ?thesis
    using assms handleSelectTitle_keeps_invariant[of s rp t] handleSignOut_keeps_invariant[of s rp]
      handleImagePicker_keeps_invariant[of s env] uploadAvatar_keeps_invariant[of s env src]
      fetchTitles_keeps_invariant[of s tenv]
      handleSelectTitle_writes_member[of _ _ rp t s] fetchTitles_only_extends[of _ _ tenv s]
    by blast
qed

theorem selected_title_invariant_witness:
  "snapshot_ok signed_in
   \<and> loaded_ok (refresh_reply scenario_env)
   \<and> failure ok_reply = None
   \<and> snapshot_ok (state_of (handleSelectTitle ok_reply ''Rookie'' signed_in))
   \<and> snapshot_ok (state_of (handleSignOut ok_reply signed_in))
   \<and> profile (state_of (handleSignOut ok_reply signed_in)) = None
   \<and> snapshot_ok (state_of (handleImagePicker picker_env signed_in))
   \<and> snapshot_ok (state_of (fetchTitles scenario_env signed_in))
   \<and> profile (state_of (fetchTitles scenario_env signed_in)) =
        Some (alice_profile\<lparr>titles := Some [''Rookie'', ''Pro'']\<rparr>)
   \<and> UpdateProfiles (SetTitles [''Rookie'', ''Pro'']) ''u1'' \<in> set (calls_of (fetchTitles scenario_env signed_in))"
proof -
  have h1: "snapshot_ok signed_in"
    by (simp add: snapshot_ok_def selected_ok_def signed_in_def alice_profile_def)
  have h2: "loaded_ok (refresh_reply scenario_env)"
    by (simp add: loaded_ok_def selected_ok_def scenario_env_def alice_profile_def)
  have h3: "failure ok_reply = None"
    by (simp add: ok_reply_def)
  have su: "session_user signed_in = Some alice"
    by (simp add: session_user_def signed_in_def)
  have run: "fetchTitles scenario_env signed_in =
               (Inr (), [SelectFrom ''titles'' ''*'' None,
                         SelectFrom ''profiles'' ''points, titles'' (Some ''u1''),
                         UpdateProfiles (SetTitles [''Rookie'', ''Pro'']) ''u1'',
                         SelectFrom ''profiles'' profile_columns (Some ''u1'')],
                signed_in\<lparr>profile := Some (alice_profile\<lparr>titles := Some [''Rookie'', ''Pro'']\<rparr>),
                          titles_list := scenario_table\<rparr>)"
    by (simp add: fetchTitles_def su scenario_env_def newlyUnlockedTitles_def scenario_table_def
          getProfile_eq alice_def Let_def)
       (simp add: signed_in_def)
  from selected_title_invariant_preserved[OF h1, of ok_reply "''Rookie''" "''2024''" "''url''" picker_env
         "Uri ''x''" failed_reply_profile 200 scenario_env]
       h1 h2 h3 run
  show ?thesis
    by (simp add: state_of_def calls_of_def)
qed

section \<open>Failures: raised, unread or logged\<close>















end
